theory Spec2Isabelle
  imports Main
begin

section \<open>Values, errors and the platform\<close>

text \<open>
  Values that flow through \<^verbatim>\<open>client.ts\<close>: what \<^verbatim>\<open>res.json()\<close> can return, plus
  \<^verbatim>\<open>undefined\<close>, which property reads produce. Numbers are integers; an object is
  its list of own properties in insertion order.
\<close>

datatype jsval =
    JUndefined
  | JNull
  | JBool bool
  | JNum int
  | JStr string
  | JArr "jsval list"
  | JObj "(string \<times> jsval) list"

type_synonym obj = "(string \<times> jsval) list"

text \<open>
  Everything the client can throw or reject with. \<open>FileMakerError code message\<close> keeps the
  two constructor arguments as they are passed (lines 88-95); \<open>Error\<close> is the plain
  built-in error with its message; \<open>TypeError\<close> is the runtime error of reading a
  property of \<^verbatim>\<open>undefined\<close> or \<^verbatim>\<open>null\<close> and of \<^verbatim>\<open>new URL\<close> on an invalid string;
  \<open>InvalidJson\<close> is the rejection of \<^verbatim>\<open>res.json()\<close>; \<open>NetworkError\<close> a rejection of
  \<^verbatim>\<open>fetch\<close>; \<open>ZodError\<close> the rejection of the options by the schema.
\<close>

datatype js_error =
    FileMakerError jsval jsval
  | Error string
  | TypeError
  | InvalidJson
  | NetworkError string
  | ZodError

record http_request =
  req_url :: string
  req_method :: string
  req_headers :: "(string \<times> string) list"
  req_body :: "string option"

text \<open>
  A response as the client reads it: \<open>status\<close>, the outcome of \<^verbatim>\<open>res.json()\<close>
  (\<open>None\<close> when it rejects) and the outcome of
  \<^verbatim>\<open>res.headers.get("X-FM-Data-Access-Token")\<close> (\<open>None\<close> for \<^verbatim>\<open>null\<close>).
\<close>

record http_response =
  status :: nat
  json_body :: "jsval option"
  access_token_header :: "string option"

definition ok :: "http_response \<Rightarrow> bool" where
  "ok res = (200 \<le> status res \<and> status res < 300)"

text \<open>
  The library functions the client calls are parameters of the model: the URL class
  (\<open>'u\<close> is the type of URL objects), \<^verbatim>\<open>URLSearchParams\<close>, \<^verbatim>\<open>JSON.stringify\<close> with and
  without indentation, base64 encoding, and \<^verbatim>\<open>fetch\<close>, which answers a request
  depending on the requests made before it.
\<close>

record 'u platform =
  URL_new :: "string \<Rightarrow> 'u option"
  URL_set_port :: "'u \<Rightarrow> string \<Rightarrow> 'u"
  URL_set_search :: "'u \<Rightarrow> string \<Rightarrow> 'u"
  URL_toString :: "'u \<Rightarrow> string"
  URLSearchParams_toString :: "obj \<Rightarrow> string"
  JSON_stringify :: "jsval \<Rightarrow> string"
  JSON_stringify_indent2 :: "jsval \<Rightarrow> string"
  base64 :: "string \<Rightarrow> string"
  fetch :: "http_request list \<Rightarrow> http_request \<Rightarrow> js_error + http_response"

section \<open>Options and client state\<close>

datatype auth_mode =
    OttoAuth string "int option"
  | UserPasswordAuth string string

record client_options =
  server :: string
  db :: string
  auth :: auth_mode
  layout :: "string option"

text \<open>
  The closure of \<^verbatim>\<open>DataApi\<close>: the validated options and \<^verbatim>\<open>baseUrl\<close> never change
  after construction; \<^verbatim>\<open>token\<close> is the one mutable variable. \<open>calls\<close> is the log
  of the requests handed to \<^verbatim>\<open>fetch\<close> so far, oldest first.
\<close>

record 'u client =
  options :: client_options
  baseUrl :: 'u

record client_state =
  token :: "string option"
  calls :: "http_request list"

text \<open>
  The test \<^verbatim>\<open>!token\<close> on a \<^verbatim>\<open>string | null\<close>: \<^verbatim>\<open>null\<close> and the empty string are
  falsy. \<open>truthy_token\<close> returns the token when the test lets it through.
\<close>

definition truthy_token :: "string option \<Rightarrow> string option" where
  "truthy_token t = (case t of None \<Rightarrow> None | Some s \<Rightarrow> if s = [] then None else Some s)"

definition do_fetch ::
  "'u platform \<Rightarrow> client_state \<Rightarrow> http_request \<Rightarrow> (js_error + http_response) \<times> client_state" where
  "do_fetch P s rq = (fetch P (calls s) rq, s\<lparr>calls := calls s @ [rq]\<rparr>)"

section \<open>Property reads\<close>

definition obj_get :: "obj \<Rightarrow> string \<Rightarrow> jsval" where
  "obj_get kvs k = (case map_of kvs k of None \<Rightarrow> JUndefined | Some v \<Rightarrow> v)"

definition digit_char :: "nat \<Rightarrow> char" where
  "digit_char n = ''0123456789'' ! n"

function show_nat :: "nat \<Rightarrow> string" where
  "show_nat n = (if n < 10 then [digit_char n] else show_nat (n div 10) @ [digit_char (n mod 10)])"
  by pat_completeness auto
termination
  by (relation "measure (\<lambda>n. n)") auto

declare show_nat.simps [simp del]

definition show_int :: "int \<Rightarrow> string" where
  "show_int i = (if i < 0 then CHR ''-'' # show_nat (nat (- i)) else show_nat (nat i))"

text \<open>\<^verbatim>\<open>v.k\<close> for a named property \<open>k\<close>: throws on \<^verbatim>\<open>undefined\<close> and \<^verbatim>\<open>null\<close>.\<close>

fun get_prop :: "jsval \<Rightarrow> string \<Rightarrow> js_error + jsval" where
  "get_prop JUndefined k = Inl TypeError"
| "get_prop JNull k = Inl TypeError"
| "get_prop (JObj kvs) k = Inr (obj_get kvs k)"
| "get_prop (JArr xs) k = Inr (if k = ''length'' then JNum (int (length xs)) else JUndefined)"
| "get_prop (JStr s) k = Inr (if k = ''length'' then JNum (int (length s)) else JUndefined)"
| "get_prop v k = Inr JUndefined"

text \<open>\<^verbatim>\<open>v[i]\<close> for an index \<open>i\<close>.\<close>

fun get_index :: "jsval \<Rightarrow> nat \<Rightarrow> js_error + jsval" where
  "get_index JUndefined i = Inl TypeError"
| "get_index JNull i = Inl TypeError"
| "get_index (JArr xs) i = Inr (if i < length xs then xs ! i else JUndefined)"
| "get_index (JStr s) i = Inr (if i < length s then JStr [s ! i] else JUndefined)"
| "get_index (JObj kvs) i = Inr (obj_get kvs (show_nat i))"
| "get_index v i = Inr JUndefined"

definition nullish :: "jsval \<Rightarrow> bool" where
  "nullish v = (v = JUndefined \<or> v = JNull)"

section \<open>Token manager\<close>

text \<open>The login request of \<^verbatim>\<open>getToken\<close>, lines 114-122.\<close>

definition login_request :: "'u platform \<Rightarrow> 'u client \<Rightarrow> string \<Rightarrow> string \<Rightarrow> http_request" where
  "login_request P c username password =
     \<lparr>req_url = URL_toString P (baseUrl c) @ ''/sessions'',
      req_method = ''POST'',
      req_headers =
        [(''Content-Type'', ''application/json''),
         (''Authorization'', ''Basic '' @ base64 P (username @ '':'' @ password))],
      req_body = None\<rparr>"

text \<open>
  \<^verbatim>\<open>data.messages[0].code\<close> and \<^verbatim>\<open>data.messages[0].message\<close> of lines 126-129; the
  code is evaluated first.
\<close>

definition first_message_field :: "jsval \<Rightarrow> string \<Rightarrow> js_error + jsval" where
  "first_message_field data k =
     (case get_prop data ''messages'' of
        Inl e \<Rightarrow> Inl e
      | Inr ms \<Rightarrow>
          (case get_index ms 0 of
             Inl e \<Rightarrow> Inl e
           | Inr m \<Rightarrow> get_prop m k))"

definition login_failure :: "http_response \<Rightarrow> js_error" where
  "login_failure res =
     (case json_body res of
        None \<Rightarrow> InvalidJson
      | Some data \<Rightarrow>
          (case first_message_field data ''code'' of
             Inl e \<Rightarrow> e
           | Inr code \<Rightarrow>
               (case first_message_field data ''message'' of
                  Inl e \<Rightarrow> e
                | Inr msg \<Rightarrow> FileMakerError code msg)))"

definition getToken ::
  "'u platform \<Rightarrow> 'u client \<Rightarrow> client_state \<Rightarrow> bool \<Rightarrow> (js_error + string) \<times> client_state" where
  "getToken P c s refresh =
     (case auth (options c) of
        OttoAuth apiKey ottoPort \<Rightarrow> (Inr apiKey, s)
      | UserPasswordAuth username password \<Rightarrow>
          (let s1 = (if refresh then s\<lparr>token := None\<rparr> else s) in
           case truthy_token (token s1) of
             Some t \<Rightarrow> (Inr t, s1)
           | None \<Rightarrow>
               (case do_fetch P s1 (login_request P c username password) of
                  (Inl e, s2) \<Rightarrow> (Inl e, s2)
                | (Inr res, s2) \<Rightarrow>
                    if \<not> ok res then (Inl (login_failure res), s2)
                    else
                      (let s3 = s2\<lparr>token := access_token_header res\<rparr> in
                       case truthy_token (token s3) of
                         None \<Rightarrow> (Inl (Error ''Could not get token''), s3)
                       | Some t \<Rightarrow> (Inr t, s3)))))"

section \<open>Request dispatcher\<close>

text \<open>The argument of \<^verbatim>\<open>request\<close>, lines 138-143; \<open>None\<close> is an absent property.\<close>

record request_params =
  rp_url :: string
  rp_body :: "jsval option"
  rp_query :: "obj option"
  rp_method :: "string option"

fun truthy :: "jsval \<Rightarrow> bool" where
  "truthy JUndefined = False"
| "truthy JNull = False"
| "truthy (JBool b) = b"
| "truthy (JNum n) = (n \<noteq> 0)"
| "truthy (JStr s) = (s \<noteq> [])"
| "truthy (JArr xs) = True"
| "truthy (JObj kvs) = True"

text \<open>Lines 158-163: the body as JSON, an empty object when parsing fails.\<close>

definition read_body :: "http_response \<Rightarrow> jsval" where
  "read_body res = (case json_body res of None \<Rightarrow> JObj [] | Some v \<Rightarrow> v)"

text \<open>
  \<^verbatim>\<open>respData?.messages?.[0].code ?? "500"\<close>: the two \<^verbatim>\<open>?.\<close> end the chain with
  \<^verbatim>\<open>undefined\<close> on a nullish \<^verbatim>\<open>respData\<close> or \<^verbatim>\<open>messages\<close>; the read of
  \<^verbatim>\<open>.code\<close> is a plain one.
\<close>

definition error_code :: "jsval \<Rightarrow> js_error + jsval" where
  "error_code respData =
     (if nullish respData then Inr (JStr ''500'')
      else
        (case get_prop respData ''messages'' of
           Inl e \<Rightarrow> Inl e
         | Inr ms \<Rightarrow>
             if nullish ms then Inr (JStr ''500'')
             else
               (case get_index ms 0 of
                  Inl e \<Rightarrow> Inl e
                | Inr m \<Rightarrow>
                    (case get_prop m ''code'' of
                       Inl e \<Rightarrow> Inl e
                     | Inr code \<Rightarrow> Inr (if nullish code then JStr ''500'' else code)))))"

definition failure_message :: "'u platform \<Rightarrow> http_response \<Rightarrow> jsval \<Rightarrow> string" where
  "failure_message P res respData =
     ''Filemaker Data API failed with ('' @ show_nat (status res) @ ''): ''
       @ JSON_stringify_indent2 P respData"

text \<open>
  What the \<^verbatim>\<open>throw new FileMakerError(...)\<close> of lines 166-173 (and of 319-326) throws:
  the arguments are evaluated first, the code before the message.
\<close>

definition api_failure :: "'u platform \<Rightarrow> http_response \<Rightarrow> jsval \<Rightarrow> js_error" where
  "api_failure P res respData =
     (case error_code respData of
        Inl e \<Rightarrow> e
      | Inr code \<Rightarrow> FileMakerError code (JStr (failure_message P res respData)))"

definition bearer_headers :: "string \<Rightarrow> (string \<times> string) list" where
  "bearer_headers tok =
     [(''Authorization'', ''Bearer '' @ tok), (''Content-Type'', ''application/json'')]"

text \<open>The URL and the request that lines 145-156 hand to \<^verbatim>\<open>fetch\<close>.\<close>

definition request_url :: "'u platform \<Rightarrow> 'u \<Rightarrow> request_params \<Rightarrow> 'u" where
  "request_url P u0 params =
     (case rp_query params of
        None \<Rightarrow> u0
      | Some q \<Rightarrow> URL_set_search P u0 (URLSearchParams_toString P q))"

definition outgoing :: "'u platform \<Rightarrow> 'u \<Rightarrow> string \<Rightarrow> request_params \<Rightarrow> http_request" where
  "outgoing P url tok params =
     \<lparr>req_url = URL_toString P url,
      req_method = (case rp_method params of None \<Rightarrow> ''POST'' | Some m \<Rightarrow> m),
      req_headers = bearer_headers tok,
      req_body = (case rp_body params of
                    None \<Rightarrow> None
                  | Some b \<Rightarrow> if truthy b then Some (JSON_stringify P b) else None)\<rparr>"

definition request ::
  "'u platform \<Rightarrow> 'u client \<Rightarrow> client_state \<Rightarrow> request_params \<Rightarrow> (js_error + jsval) \<times> client_state" where
  "request P c s params =
     (case URL_new P (URL_toString P (baseUrl c) @ rp_url params) of
        None \<Rightarrow> (Inl TypeError, s)
      | Some u0 \<Rightarrow>
          (let url = request_url P u0 params in
           case getToken P c s False of
             (Inl e, s1) \<Rightarrow> (Inl e, s1)
           | (Inr tok, s1) \<Rightarrow>
               (case do_fetch P s1 (outgoing P url tok params) of
                  (Inl e, s2) \<Rightarrow> (Inl e, s2)
                | (Inr res, s2) \<Rightarrow>
                    (let respData = read_body res in
                     if \<not> ok res then (Inl (api_failure P res respData), s2)
                     else
                       (case get_prop respData ''response'' of
                          Inl e \<Rightarrow> (Inl e, s2)
                        | Inr v \<Rightarrow> (Inr v, s2))))))"

section \<open>Operations\<close>

text \<open>Objects as property lists: assignment keeps the place of an existing key.\<close>

fun obj_set :: "obj \<Rightarrow> string \<Rightarrow> jsval \<Rightarrow> obj" where
  "obj_set [] k v = [(k, v)]"
| "obj_set ((k', v') # kvs) k v = (if k' = k then (k, v) # kvs else (k', v') # obj_set kvs k v)"

definition obj_delete :: "obj \<Rightarrow> string \<Rightarrow> obj" where
  "obj_delete kvs k = filter (\<lambda>kv. fst kv \<noteq> k) kvs"

fun is_array :: "jsval \<Rightarrow> bool" where
  "is_array (JArr xs) = True"
| "is_array v = False"

text \<open>
  \<^verbatim>\<open>layout = options.layout\<close> in a destructuring pattern, then \<^verbatim>\<open>${layout}\<close> in the
  path: the default applies when the argument has none, and \<^verbatim>\<open>undefined\<close> prints as
  such.
\<close>

definition layout_path :: "'u client \<Rightarrow> string option \<Rightarrow> string" where
  "layout_path c l =
     (case (case l of None \<Rightarrow> layout (options c) | Some x \<Rightarrow> Some x) of
        None \<Rightarrow> ''undefined''
      | Some x \<Rightarrow> x)"

text \<open>
  The argument of \<^verbatim>\<open>list\<close> after line 190: the layout, and \<^verbatim>\<open>params\<close>, the
  remaining properties.
\<close>

record list_args =
  la_layout :: "string option"
  la_params :: obj

text \<open>Lines 193-200, one \<^verbatim>\<open>if\<close> after the other on the same object.\<close>

definition list_params :: "obj \<Rightarrow> obj" where
  "list_params params =
     (let p1 = (if truthy (obj_get params ''limit'')
                then obj_delete (obj_set params ''_limit'' (obj_get params ''limit'')) ''limit''
                else params);
          p2 = (if truthy (obj_get p1 ''offset'')
                then obj_delete (obj_set p1 ''_offset'' (obj_get p1 ''offset'')) ''offset''
                else p1);
          p3 = (if truthy (obj_get p2 ''sort'')
                then obj_delete
                       (obj_set p2 ''_sort''
                          (if is_array (obj_get p2 ''sort'') then obj_get p2 ''sort''
                           else JArr [obj_get p2 ''sort'']))
                       ''sort''
                else p2)
      in p3)"

definition list_op ::
  "'u platform \<Rightarrow> 'u client \<Rightarrow> client_state \<Rightarrow> list_args \<Rightarrow> (js_error + jsval) \<times> client_state" where
  "list_op P c s args =
     request P c s
       \<lparr>rp_url = ''/layouts/'' @ layout_path c (la_layout args) @ ''/records'',
        rp_body = None,
        rp_query = Some (list_params (la_params args)),
        rp_method = Some ''GET''\<rparr>"

text \<open>The argument of \<^verbatim>\<open>find\<close> after lines 346-351.\<close>

record find_args =
  fa_query :: jsval
  fa_layout :: "string option"
  fa_ignoreEmptyResult :: "bool option"
  fa_params :: obj

text \<open>\<^verbatim>\<open>{ query, ...params }\<close>: the spread assigns each property in turn.\<close>

definition obj_spread :: "obj \<Rightarrow> obj \<Rightarrow> obj" where
  "obj_spread base extra = foldl (\<lambda>acc kv. obj_set acc (fst kv) (snd kv)) base extra"

text \<open>\<^verbatim>\<open>e instanceof FileMakerError && e.code === "401"\<close>.\<close>

fun is_no_records :: "js_error \<Rightarrow> bool" where
  "is_no_records (FileMakerError code msg) = (code = JStr ''401'')"
| "is_no_records e = False"

definition find_request :: "'u client \<Rightarrow> find_args \<Rightarrow> request_params" where
  "find_request c args =
     \<lparr>rp_url = ''/layouts/'' @ layout_path c (fa_layout args) @ ''/_find'',
      rp_body = Some (JObj (obj_spread
                  [(''query'', if \<not> is_array (fa_query args) then JArr [fa_query args]
                               else fa_query args)]
                  (fa_params args))),
      rp_query = None,
      rp_method = Some ''POST''\<rparr>"

definition find ::
  "'u platform \<Rightarrow> 'u client \<Rightarrow> client_state \<Rightarrow> find_args \<Rightarrow> (js_error + jsval) \<times> client_state" where
  "find P c s args =
     (let ignoreEmptyResult = (case fa_ignoreEmptyResult args of None \<Rightarrow> False | Some b \<Rightarrow> b) in
      case request P c s (find_request c args) of
        (Inr v, s') \<Rightarrow> (Inr v, s')
      | (Inl e, s') \<Rightarrow>
          if ignoreEmptyResult \<and> is_no_records e then (Inr (JObj [(''data'', JArr [])]), s')
          else (Inl e, s'))"

text \<open>\<^verbatim>\<open>${v}\<close> for a value: arrays join their elements with commas.\<close>

fun js_toString :: "jsval \<Rightarrow> string" and js_join :: "jsval list \<Rightarrow> string" where
  "js_toString JUndefined = ''undefined''"
| "js_toString JNull = ''null''"
| "js_toString (JBool b) = (if b then ''true'' else ''false'')"
| "js_toString (JNum n) = show_int n"
| "js_toString (JStr s) = s"
| "js_toString (JArr xs) = js_join xs"
| "js_toString (JObj kvs) = ''[object Object]''"
| "js_join [] = []"
| "js_join [x] = (if nullish x then [] else js_toString x)"
| "js_join (x # y # ys) = (if nullish x then [] else js_toString x) @ '','' @ js_join (y # ys)"

text \<open>The own properties that \<^verbatim>\<open>{...res}\<close> copies.\<close>

fun own_props :: "jsval \<Rightarrow> obj" where
  "own_props (JObj kvs) = kvs"
| "own_props (JArr xs) = map (\<lambda>i. (show_nat i, xs ! i)) [0..<length xs]"
| "own_props (JStr s) = map (\<lambda>i. (show_nat i, JStr [s ! i])) [0..<length s]"
| "own_props v = []"

definition findOne ::
  "'u platform \<Rightarrow> 'u client \<Rightarrow> client_state \<Rightarrow> find_args \<Rightarrow> (js_error + jsval) \<times> client_state" where
  "findOne P c s args =
     (case find P c s args of
        (Inl e, s') \<Rightarrow> (Inl e, s')
      | (Inr res, s') \<Rightarrow>
          (case get_prop res ''data'' of
             Inl e \<Rightarrow> (Inl e, s')
           | Inr d \<Rightarrow>
               (case get_prop d ''length'' of
                  Inl e \<Rightarrow> (Inl e, s')
                | Inr len \<Rightarrow>
                    if len \<noteq> JNum 1
                    then (Inl (Error (js_toString len @ '' records found; expecting exactly 1'')), s')
                    else
                      (case get_index d 0 of
                         Inl e \<Rightarrow> (Inl e, s')
                       | Inr r \<Rightarrow> (Inr (JObj (obj_set (own_props res) ''data'' r)), s')))))"

section \<open>Session teardown\<close>

text \<open>
  \<^verbatim>\<open>disconnect\<close> is not an \<^verbatim>\<open>async\<close> function: its first statement can throw to the
  caller, and otherwise it returns the promise of the inner \<^verbatim>\<open>func\<close>.
\<close>

datatype 'a outcome = Throws js_error | Promise "js_error + 'a"

definition logout_request :: "'u platform \<Rightarrow> 'u \<Rightarrow> string \<Rightarrow> http_request" where
  "logout_request P url tok =
     \<lparr>req_url = URL_toString P url,
      req_method = ''DELETE'',
      req_headers = bearer_headers tok,
      req_body = None\<rparr>"

definition disconnect_func ::
  "'u platform \<Rightarrow> 'u client \<Rightarrow> client_state \<Rightarrow> (js_error + jsval) \<times> client_state" where
  "disconnect_func P c s =
     (case getToken P c s False of
        (Inl e, s1) \<Rightarrow> (Inl e, s1)
      | (Inr tok, s1) \<Rightarrow>
          (case URL_new P (URL_toString P (baseUrl c) @ ''/sessions/'' @ tok) of
             None \<Rightarrow> (Inl TypeError, s1)
           | Some url \<Rightarrow>
               (case do_fetch P s1 (logout_request P url tok) of
                  (Inl e, s2) \<Rightarrow> (Inl e, s2)
                | (Inr res, s2) \<Rightarrow>
                    (let respData = read_body res in
                     if \<not> ok res then (Inl (api_failure P res respData), s2)
                     else
                       (case get_prop respData ''response'' of
                          Inl e \<Rightarrow> (Inl e, s2)
                        | Inr v \<Rightarrow> (Inr v, s2))))))"

definition disconnect ::
  "'u platform \<Rightarrow> 'u client \<Rightarrow> client_state \<Rightarrow> jsval outcome \<times> client_state" where
  "disconnect P c s =
     (case auth (options c) of
        OttoAuth apiKey ottoPort \<Rightarrow>
          (Throws (Error ''Cannot disconnect when using Otto API key.''), s)
      | UserPasswordAuth username password \<Rightarrow>
          (case disconnect_func P c s of (r, s') \<Rightarrow> (Promise r, s')))"

section \<open>Construction\<close>



section \<open>A stand-in platform\<close>

text \<open>
  A platform to run the client on in examples: a URL object keeps the string it was made
  from, with the port and the query assigned to it beside it; \<open>json_text\<close> stands for
  both uses of \<^verbatim>\<open>JSON.stringify\<close> (one line, no escapes) and the identity for base64;
  the network is the function given.
\<close>

fun json_text :: "jsval \<Rightarrow> string"
  and json_items :: "jsval list \<Rightarrow> string"
  and json_fields :: "(string \<times> jsval) list \<Rightarrow> string" where
  "json_text JUndefined = ''null''"
| "json_text JNull = ''null''"
| "json_text (JBool b) = (if b then ''true'' else ''false'')"
| "json_text (JNum n) = show_int n"
| "json_text (JStr str) = CHR 0x22 # str @ [CHR 0x22]"
| "json_text (JArr xs) = ''['' @ json_items xs @ '']''"
| "json_text (JObj kvs) = ''{'' @ json_fields kvs @ ''}''"
| "json_items [] = []"
| "json_items [x] = json_text x"
| "json_items (x # y # ys) = json_text x @ '','' @ json_items (y # ys)"
| "json_fields [] = []"
| "json_fields [(k, v)] = CHR 0x22 # k @ [CHR 0x22] @ '':'' @ json_text v"
| "json_fields ((k, v) # kv # kvs) =
     CHR 0x22 # k @ [CHR 0x22] @ '':'' @ json_text v @ '','' @ json_fields (kv # kvs)"

record stub_url =
  su_href :: string
  su_port :: string
  su_search :: string

definition stub_platform ::
  "(http_request list \<Rightarrow> http_request \<Rightarrow> js_error + http_response) \<Rightarrow> stub_url platform" where
  "stub_platform net =
     \<lparr>URL_new = (\<lambda>str. if str = [] then None else Some \<lparr>su_href = str, su_port = [], su_search = []\<rparr>),
      URL_set_port = (\<lambda>u p. u\<lparr>su_port := p\<rparr>),
      URL_set_search = (\<lambda>u q. u\<lparr>su_search := q\<rparr>),
      URL_toString = (\<lambda>u. su_href u @ (if su_search u = [] then [] else CHR ''?'' # su_search u)),
      URLSearchParams_toString = (\<lambda>q. concat (map (\<lambda>kv. fst kv @ ''='' @ js_toString (snd kv) @ ''&'') q)),
      JSON_stringify = json_text,
      JSON_stringify_indent2 = json_text,
      base64 = (\<lambda>str. str),
      fetch = net\<rparr>"

text \<open>A client with credentials, one with an API key, and a few server answers.\<close>

definition credentials_client :: "stub_url client" where
  "credentials_client =
     \<lparr>options = \<lparr>server = ''https://fm.example.com'', db = ''db'',
                  auth = UserPasswordAuth ''admin'' ''secret'', layout = Some ''people''\<rparr>,
      baseUrl = \<lparr>su_href = ''https://fm.example.com/fmi/data/vLatest/databases/db'',
                 su_port = [], su_search = []\<rparr>\<rparr>"

definition apiKey_client :: "stub_url client" where
  "apiKey_client =
     \<lparr>options = \<lparr>server = ''https://fm.example.com'', db = ''db'',
                  auth = OttoAuth ''KEY-1'' None, layout = Some ''people''\<rparr>,
      baseUrl = \<lparr>su_href = ''https://fm.example.com/fmi/data/vLatest/databases/db'',
                 su_port = ''3030'', su_search = []\<rparr>\<rparr>"

definition login_ok :: http_response where
  "login_ok = \<lparr>status = 200, json_body = Some (JObj [(''response'', JObj [])]),
               access_token_header = Some ''T2''\<rparr>"

definition answer :: "nat \<Rightarrow> jsval \<Rightarrow> http_response" where
  "answer st body = \<lparr>status = st, json_body = Some body, access_token_header = None\<rparr>"

text \<open>A server that answers a login with \<open>login\<close> and every other request with \<open>res\<close>.\<close>

definition server_net ::
  "http_response \<Rightarrow> http_response \<Rightarrow> http_request list \<Rightarrow> http_request \<Rightarrow> js_error + http_response" where
  "server_net login res log rq =
     (if req_url rq = ''https://fm.example.com/fmi/data/vLatest/databases/db/sessions''
      then Inr login else Inr res)"

text \<open>The server's answer to a find that matches nothing, and a find for it.\<close>

definition no_records :: http_response where
  "no_records =
     answer 500
       (JObj [(''messages'',
               JArr [JObj [(''code'', JStr ''401''),
                           (''message'', JStr ''No records match the request'')]]),
              (''response'', JObj [])])"

definition find_people :: "bool option \<Rightarrow> find_args" where
  "find_people flag =
     \<lparr>fa_query = JObj [(''name'', JStr ''Ann'')], fa_layout = None,
      fa_ignoreEmptyResult = flag, fa_params = []\<rparr>"

text \<open>An answer with the given records as the found set.\<close>

definition found :: "jsval list \<Rightarrow> http_response" where
  "found recs = answer 200 (JObj [(''response'', JObj [(''data'', JArr recs)]), (''messages'', JArr [])])"

section \<open>The port of a URL object\<close>











section \<open>Helper facts\<close>

lemma show_int_nat: "show_int (int n) = show_nat n"
  by (simp add: show_int_def)

lemma map_of_obj_set: "map_of (obj_set kvs k v) = (map_of kvs)(k \<mapsto> v)"
  by (induction kvs) (auto simp: fun_eq_iff)

lemma map_of_obj_delete: "map_of (obj_delete kvs k) = (map_of kvs)(k := None)"
  by (induction kvs) (auto simp: obj_delete_def fun_eq_iff)

lemma obj_get_obj_delete_other: "k' \<noteq> k \<Longrightarrow> obj_get (obj_delete kvs k) k' = obj_get kvs k'"
  by (simp add: obj_get_def map_of_obj_delete)

lemma obj_get_obj_set_other: "k' \<noteq> k \<Longrightarrow> obj_get (obj_set kvs k v) k' = obj_get kvs k'"
  by (simp add: obj_get_def map_of_obj_set)

text \<open>With a token in the cell, \<^verbatim>\<open>getToken()\<close> is a read.\<close>

lemma getToken_cached:
  "auth (options c) = UserPasswordAuth username password \<Longrightarrow>
   truthy_token (token s) = Some t \<Longrightarrow> getToken P c s False = (Inr t, s)"
  by (simp add: getToken_def)

text \<open>Without one, a successful \<^verbatim>\<open>getToken()\<close> has made the login call and stored its token.\<close>

lemma getToken_login:
  assumes "auth (options c) = UserPasswordAuth username password"
    and "truthy_token (token s) = None"
    and "getToken P c s False = (Inr tok, s1)"
  shows "s1 = \<lparr>token = Some tok, calls = calls s @ [login_request P c username password]\<rparr> \<and>
         tok \<noteq> []"
  using assms
  by (auto simp: getToken_def do_fetch_def Let_def truthy_token_def
      split: sum.splits option.splits prod.splits if_splits)

text \<open>What \<^verbatim>\<open>request\<close> does once the server has answered.\<close>

lemma request_answered:
  assumes "URL_new P (URL_toString P (baseUrl c) @ rp_url params) = Some u0"
    and "getToken P c s False = (Inr tok, s1)"
    and "fetch P (calls s1) (outgoing P (request_url P u0 params) tok params) = Inr res"
  shows "request P c s params =
           (if \<not> ok res then Inl (api_failure P res (read_body res))
            else (case get_prop (read_body res) ''response'' of
                    Inl e \<Rightarrow> Inl e
                  | Inr v \<Rightarrow> Inr v),
            s1\<lparr>calls := calls s1 @ [outgoing P (request_url P u0 params) tok params]\<rparr>)"
  using assms by (simp add: request_def do_fetch_def Let_def split: sum.splits)

text \<open>Whatever the network does, a request that got its token is logged.\<close>

lemma request_calls:
  assumes "URL_new P (URL_toString P (baseUrl c) @ rp_url params) = Some u0"
    and "getToken P c s False = (Inr tok, s1)"
  shows "calls (snd (request P c s params)) =
           calls s1 @ [outgoing P (request_url P u0 params) tok params]"
  using assms
  by (auto simp: request_def do_fetch_def Let_def split: sum.splits prod.splits)

text \<open>
  The error of a failed response whose body does not parse: the body counts as
  \<^verbatim>\<open>{}\<close> and the code is the sentinel.
\<close>

lemma api_failure_unparseable:
  "json_body res = None \<Longrightarrow>
   api_failure P res (read_body res) =
     FileMakerError (JStr ''500'') (JStr (failure_message P res (JObj [])))"
  by (simp add: api_failure_def read_body_def error_code_def nullish_def obj_get_def)

text \<open>The error when \<^verbatim>\<open>messages\<close> is there and empty: the read of \<^verbatim>\<open>.code\<close> throws.\<close>

lemma api_failure_empty_messages:
  "get_prop body ''messages'' = Inr (JArr []) \<Longrightarrow> api_failure P res body = TypeError"
  by (cases body) (auto simp: api_failure_def error_code_def nullish_def)

text \<open>The renaming of lines 193-200, key by key.\<close>

lemma list_params_lookup:
  "(truthy (obj_get ps ''limit'') \<longrightarrow>
      map_of (list_params ps) ''_limit'' = Some (obj_get ps ''limit'') \<and>
      map_of (list_params ps) ''limit'' = None) \<and>
   (\<not> truthy (obj_get ps ''limit'') \<longrightarrow>
      map_of (list_params ps) ''limit'' = map_of ps ''limit'' \<and>
      map_of (list_params ps) ''_limit'' = map_of ps ''_limit'') \<and>
   (truthy (obj_get ps ''offset'') \<longrightarrow>
      map_of (list_params ps) ''_offset'' = Some (obj_get ps ''offset'') \<and>
      map_of (list_params ps) ''offset'' = None) \<and>
   (\<not> truthy (obj_get ps ''offset'') \<longrightarrow>
      map_of (list_params ps) ''offset'' = map_of ps ''offset'' \<and>
      map_of (list_params ps) ''_offset'' = map_of ps ''_offset'') \<and>
   (truthy (obj_get ps ''sort'') \<longrightarrow>
      map_of (list_params ps) ''_sort'' =
        Some (if is_array (obj_get ps ''sort'') then obj_get ps ''sort''
              else JArr [obj_get ps ''sort'']) \<and>
      map_of (list_params ps) ''sort'' = None) \<and>
   (\<not> truthy (obj_get ps ''sort'') \<longrightarrow>
      map_of (list_params ps) ''sort'' = map_of ps ''sort'' \<and>
      map_of (list_params ps) ''_sort'' = map_of ps ''_sort'') \<and>
   (\<forall>k. k \<notin> {''limit'', ''offset'', ''sort'', ''_limit'', ''_offset'', ''_sort''} \<longrightarrow>
      map_of (list_params ps) k = map_of ps k)"
  by (simp add: list_params_def Let_def map_of_obj_set map_of_obj_delete
      obj_get_obj_delete_other obj_get_obj_set_other)

text \<open>The request that \<^verbatim>\<open>list\<close> sends once it has its token.\<close>

lemma list_op_calls:
  assumes "URL_new P (URL_toString P (baseUrl c) @ ''/layouts/'' @ layout_path c (la_layout args)
             @ ''/records'') = Some u0"
    and "getToken P c s False = (Inr tok, s1)"
  shows "calls (snd (list_op P c s args)) =
           calls s1 @
           [\<lparr>req_url = URL_toString P
                (URL_set_search P u0 (URLSearchParams_toString P (list_params (la_params args)))),
             req_method = ''GET'',
             req_headers = bearer_headers tok,
             req_body = None\<rparr>]"
proof -
  let ?rp = "\<lparr>rp_url = ''/layouts/'' @ layout_path c (la_layout args) @ ''/records'',
        rp_body = None, rp_query = Some (list_params (la_params args)), rp_method = Some ''GET''\<rparr>"
  have "calls (snd (request P c s ?rp)) = calls s1 @ [outgoing P (request_url P u0 ?rp) tok ?rp]"
    using assms request_calls[of P c ?rp u0 s tok s1] by simp
  then show ?thesis
    by (simp add: list_op_def outgoing_def request_url_def)
qed











lemmas stub_defs = stub_platform_def server_net_def login_ok_def answer_def
  credentials_client_def apiKey_client_def no_records_def find_people_def found_def

lemmas find_defs = find_def find_request_def layout_path_def obj_spread_def

lemmas disconnect_defs = disconnect_def disconnect_func_def logout_request_def

lemmas run_defs = request_def getToken_def do_fetch_def outgoing_def request_url_def
  truthy_token_def ok_def read_body_def api_failure_def error_code_def nullish_def
  obj_get_def bearer_headers_def Let_def failure_message_def login_request_def

text \<open>A find on the stand-in server that answers with a found set.\<close>

lemma find_found:
  "\<exists>s'. find (stub_platform (server_net login_ok (found recs))) credentials_client
      \<lparr>token = Some ''T1'', calls = []\<rparr> (find_people None)
     = (Inr (JObj [(''data'', JArr recs)]), s')"
  by (simp add: stub_defs run_defs find_defs)

section \<open>Token manager: the cache\<close>

text \<open>
  C1. With credentials, \<^verbatim>\<open>getToken(false)\<close> on a cell that holds a token returns that
  token and leaves the state as it is: the log of requests does not grow.
  \<^verbatim>\<open>getToken(true)\<close> adds exactly one request to the log, whatever the cell held: the
  login, a \<^verbatim>\<open>POST\<close> to \<^verbatim>\<open>{baseUrl}/sessions\<close> with the Basic credentials. When the
  server accepts it with a token in the header, that token is returned and is the new
  content of the cell; a token is returned in no other case; and when the call fails,
  the old token is gone from the cell.
\<close>

theorem getToken_credentials:
  assumes "auth (options c) = UserPasswordAuth username password"
    and "login = \<lparr>req_url = URL_toString P (baseUrl c) @ ''/sessions'',
                   req_method = ''POST'',
                   req_headers =
                     [(''Content-Type'', ''application/json''),
                      (''Authorization'', ''Basic '' @ base64 P (username @ '':'' @ password))],
                   req_body = None\<rparr>"
  shows "(\<forall>t. token s = Some t \<and> t \<noteq> [] \<longrightarrow> getToken P c s False = (Inr t, s)) \<and>
         calls (snd (getToken P c s True)) = calls s @ [login] \<and>
         (\<forall>res t. fetch P (calls s) login = Inr res \<and> ok res \<and>
                  access_token_header res = Some t \<and> t \<noteq> [] \<longrightarrow>
            getToken P c s True = (Inr t, s\<lparr>token := Some t, calls := calls s @ [login]\<rparr>)) \<and>
         (\<forall>t. fst (getToken P c s True) = Inr t \<longrightarrow>
            t \<noteq> [] \<and> token (snd (getToken P c s True)) = Some t \<and>
            (\<exists>res. fetch P (calls s) login = Inr res \<and>
                   ok res \<and> access_token_header res = Some t)) \<and>
         (\<forall>e. fst (getToken P c s True) = Inl e \<longrightarrow>
            truthy_token (token (snd (getToken P c s True))) = None)"
proof -
  have l: "login_request P c username password = login"
    by (simp add: login_request_def assms(2))
  show ?thesis
  proof (intro conjI allI impI)
    fix t assume "token s = Some t \<and> t \<noteq> []"
    then show "getToken P c s False = (Inr t, s)"
      using assms(1) by (simp add: getToken_def truthy_token_def)
  next
    show "calls (snd (getToken P c s True)) = calls s @ [login]"
      using assms(1)
      by (auto simp: getToken_def truthy_token_def do_fetch_def Let_def l
          split: sum.splits option.splits prod.splits)
  next
    fix res t
    assume "fetch P (calls s) login = Inr res \<and> ok res \<and>
              access_token_header res = Some t \<and> t \<noteq> []"
    then show "getToken P c s True = (Inr t, s\<lparr>token := Some t, calls := calls s @ [login]\<rparr>)"
      using assms(1)
      by (simp add: getToken_def truthy_token_def do_fetch_def Let_def l)
  next
    fix t assume "fst (getToken P c s True) = Inr t"
    then show "t \<noteq> []" "token (snd (getToken P c s True)) = Some t"
      "\<exists>res. fetch P (calls s) login = Inr res \<and> ok res \<and> access_token_header res = Some t"
      using assms(1)
      by (auto simp: getToken_def truthy_token_def do_fetch_def Let_def l
          split: sum.splits option.splits prod.splits if_splits)
  next
    fix e assume "fst (getToken P c s True) = Inl e"
    then show "truthy_token (token (snd (getToken P c s True))) = None"
      using assms(1)
      by (auto simp: getToken_def truthy_token_def do_fetch_def Let_def l
          split: sum.splits option.splits prod.splits if_splits)
  qed
qed

theorem getToken_credentials_witness:
  "getToken (stub_platform (server_net login_ok login_ok)) credentials_client
      \<lparr>token = Some ''T1'', calls = []\<rparr> False
     = (Inr ''T1'', \<lparr>token = Some ''T1'', calls = []\<rparr>) \<and>
   getToken (stub_platform (server_net login_ok login_ok)) credentials_client
      \<lparr>token = Some ''T1'', calls = []\<rparr> True
     = (Inr ''T2'',
        \<lparr>token = Some ''T2'',
         calls = [\<lparr>req_url = ''https://fm.example.com/fmi/data/vLatest/databases/db/sessions'',
                   req_method = ''POST'',
                   req_headers = [(''Content-Type'', ''application/json''),
                                  (''Authorization'', ''Basic admin:secret'')],
                   req_body = None\<rparr>]\<rparr>) \<and>
   getToken (stub_platform (server_net login_ok login_ok)) credentials_client
      \<lparr>token = None, calls = []\<rparr> True
     = (Inr ''T2'',
        \<lparr>token = Some ''T2'',
         calls = [\<lparr>req_url = ''https://fm.example.com/fmi/data/vLatest/databases/db/sessions'',
                   req_method = ''POST'',
                   req_headers = [(''Content-Type'', ''application/json''),
                                  (''Authorization'', ''Basic admin:secret'')],
                   req_body = None\<rparr>]\<rparr>) \<and>
   fst (getToken (stub_platform (server_net (answer 401 (JObj [(''messages'',
          JArr [JObj [(''code'', JStr ''212''), (''message'', JStr ''Invalid account'')]])])) login_ok))
      credentials_client \<lparr>token = Some ''T1'', calls = []\<rparr> True)
     = Inl (FileMakerError (JStr ''212'') (JStr ''Invalid account'')) \<and>
   token (snd (getToken (stub_platform (server_net (answer 401 (JObj [(''messages'',
          JArr [JObj [(''code'', JStr ''212''), (''message'', JStr ''Invalid account'')]])])) login_ok))
      credentials_client \<lparr>token = Some ''T1'', calls = []\<rparr> True))
     = None"
proof -
  let ?P = "stub_platform (server_net login_ok login_ok)"
  let ?login = "\<lparr>req_url = ''https://fm.example.com/fmi/data/vLatest/databases/db/sessions'',
                   req_method = ''POST'',
                   req_headers = [(''Content-Type'', ''application/json''),
                                  (''Authorization'', ''Basic admin:secret'')],
                   req_body = None\<rparr>"
  have a: "auth (options credentials_client) = UserPasswordAuth ''admin'' ''secret''"
    by (simp add: credentials_client_def)
  have l: "?login = \<lparr>req_url = URL_toString ?P (baseUrl credentials_client) @ ''/sessions'',
                   req_method = ''POST'',
                   req_headers =
                     [(''Content-Type'', ''application/json''),
                      (''Authorization'', ''Basic '' @ base64 ?P (''admin'' @ '':'' @ ''secret''))],
                   req_body = None\<rparr>"
    by (simp add: stub_defs)
  have f: "fetch ?P (calls \<lparr>token = tk, calls = []\<rparr>) ?login = Inr login_ok \<and> ok login_ok \<and>
           access_token_header login_ok = Some ''T2'' \<and> ''T2'' \<noteq> []" for tk
    by (simp add: stub_defs ok_def)
  note T1 = getToken_credentials[OF a l, of "\<lparr>token = Some ''T1'', calls = []\<rparr>"]
  note T0 = getToken_credentials[OF a l, of "\<lparr>token = None, calls = []\<rparr>"]
  have h1: "getToken ?P credentials_client \<lparr>token = Some ''T1'', calls = []\<rparr> False
     = (Inr ''T1'', \<lparr>token = Some ''T1'', calls = []\<rparr>)"
    by (rule T1[THEN conjunct1, rule_format]) simp
  have "getToken ?P credentials_client \<lparr>token = Some ''T1'', calls = []\<rparr> True
     = (Inr ''T2'', \<lparr>token = Some ''T1'', calls = []\<rparr>
          \<lparr>token := Some ''T2'', calls := calls \<lparr>token = Some ''T1'', calls = []\<rparr> @ [?login]\<rparr>)"
    by (rule T1[THEN conjunct2, THEN conjunct2, THEN conjunct1, rule_format, OF f])
  then have h2: "getToken ?P credentials_client \<lparr>token = Some ''T1'', calls = []\<rparr> True
     = (Inr ''T2'', \<lparr>token = Some ''T2'', calls = [?login]\<rparr>)"
    by simp
  have "getToken ?P credentials_client \<lparr>token = None, calls = []\<rparr> True
     = (Inr ''T2'', \<lparr>token = None, calls = []\<rparr>
          \<lparr>token := Some ''T2'', calls := calls \<lparr>token = None, calls = []\<rparr> @ [?login]\<rparr>)"
    by (rule T0[THEN conjunct2, THEN conjunct2, THEN conjunct1, rule_format, OF f])
  then have h3: "getToken ?P credentials_client \<lparr>token = None, calls = []\<rparr> True
     = (Inr ''T2'', \<lparr>token = Some ''T2'', calls = [?login]\<rparr>)"
    by simp
  have h4: "fst (getToken (stub_platform (server_net (answer 401 (JObj [(''messages'',
          JArr [JObj [(''code'', JStr ''212''), (''message'', JStr ''Invalid account'')]])])) login_ok))
      credentials_client \<lparr>token = Some ''T1'', calls = []\<rparr> True)
     = Inl (FileMakerError (JStr ''212'') (JStr ''Invalid account''))"
    by (simp add: stub_defs run_defs login_failure_def first_message_field_def)
  have h5: "token (snd (getToken (stub_platform (server_net (answer 401 (JObj [(''messages'',
          JArr [JObj [(''code'', JStr ''212''), (''message'', JStr ''Invalid account'')]])])) login_ok))
      credentials_client \<lparr>token = Some ''T1'', calls = []\<rparr> True))
     = None"
    by (simp add: stub_defs run_defs login_failure_def first_message_field_def)
  show ?thesis
    by (rule conjI[OF h1 conjI[OF h2 conjI[OF h3 conjI[OF h4 h5]]]])
qed

text \<open>
  C2. With an API key, \<^verbatim>\<open>getToken\<close> returns the configured key for either value of
  its argument, and the state after it is the state before it: no request, and the
  token cell untouched.
\<close>

theorem getToken_apiKey:
  "auth (options c) = OttoAuth apiKey ottoPort \<Longrightarrow> getToken P c s refresh = (Inr apiKey, s)"
  by (simp add: getToken_def)

theorem getToken_apiKey_witness:
  "auth (options apiKey_client) = OttoAuth ''KEY-1'' None \<and>
   getToken (stub_platform (server_net login_ok login_ok)) apiKey_client
      \<lparr>token = Some ''KEY-1'', calls = []\<rparr> True
     = (Inr ''KEY-1'', \<lparr>token = Some ''KEY-1'', calls = []\<rparr>)"
  using getToken_apiKey[of apiKey_client "''KEY-1''" None
      "stub_platform (server_net login_ok login_ok)" "\<lparr>token = Some ''KEY-1'', calls = []\<rparr>" True]
  by (simp add: apiKey_client_def)

section \<open>Request dispatcher: failures\<close>

text \<open>
  C3. The dispatcher on a failed response whose body is \<^verbatim>\<open>{"messages": []}\<close>, status
  500: the body parses, \<^verbatim>\<open>messages\<close> is not nullish, its first entry is
  \<^verbatim>\<open>undefined\<close>, and the request ends with the type error of reading \<^verbatim>\<open>.code\<close>
  from it, not with a \<^verbatim>\<open>FileMakerError\<close> of code \<^verbatim>\<open>"500"\<close>.
\<close>

theorem request_empty_messages_example:
  "request (stub_platform (server_net login_ok (answer 500 (JObj [(''messages'', JArr [])]))))
      credentials_client \<lparr>token = Some ''T1'', calls = []\<rparr>
      \<lparr>rp_url = ''/layouts/people/records'', rp_body = None, rp_query = None,
       rp_method = Some ''GET''\<rparr>
     = (Inl TypeError,
        \<lparr>token = Some ''T1'',
         calls = [\<lparr>req_url = ''https://fm.example.com/fmi/data/vLatest/databases/db/layouts/people/records'',
                   req_method = ''GET'',
                   req_headers = [(''Authorization'', ''Bearer T1''), (''Content-Type'', ''application/json'')],
                   req_body = None\<rparr>]\<rparr>)"
  by (simp add: stub_defs run_defs)

text \<open>
  C9. Whenever the server answers a request with a failure status and a body whose
  \<^verbatim>\<open>messages\<close> is the empty array, \<^verbatim>\<open>request\<close> fails with the type error: the
  chain \<^verbatim>\<open>respData?.messages?.[0].code\<close> guards the first two reads only.
\<close>

theorem request_empty_messages_TypeError:
  assumes "URL_new P (URL_toString P (baseUrl c) @ rp_url params) = Some u0"
    and "getToken P c s False = (Inr tok, s1)"
    and "fetch P (calls s1) (outgoing P (request_url P u0 params) tok params) = Inr res"
    and "\<not> ok res"
    and "json_body res = Some body"
    and "get_prop body ''messages'' = Inr (JArr [])"
  shows "fst (request P c s params) = Inl TypeError"
  using assms api_failure_empty_messages[of body P res]
  by (simp add: request_answered read_body_def)

theorem request_empty_messages_TypeError_witness:
  "\<not> ok (answer 404 (JObj [(''messages'', JArr [])])) \<and>
   json_body (answer 404 (JObj [(''messages'', JArr [])])) = Some (JObj [(''messages'', JArr [])]) \<and>
   get_prop (JObj [(''messages'', JArr [])]) ''messages'' = Inr (JArr []) \<and>
   fst (request (stub_platform (server_net login_ok (answer 404 (JObj [(''messages'', JArr [])]))))
      credentials_client \<lparr>token = Some ''T1'', calls = []\<rparr>
      \<lparr>rp_url = ''/layouts/people'', rp_body = None, rp_query = None, rp_method = Some ''GET''\<rparr>)
     = Inl TypeError"
  using request_empty_messages_TypeError[of
      "stub_platform (server_net login_ok (answer 404 (JObj [(''messages'', JArr [])])))"
      credentials_client
      "\<lparr>rp_url = ''/layouts/people'', rp_body = None, rp_query = None, rp_method = Some ''GET''\<rparr>"
      "\<lparr>su_href = ''https://fm.example.com/fmi/data/vLatest/databases/db/layouts/people'',
        su_port = [], su_search = []\<rparr>"
      "\<lparr>token = Some ''T1'', calls = []\<rparr>" "''T1''" "\<lparr>token = Some ''T1'', calls = []\<rparr>"
      "answer 404 (JObj [(''messages'', JArr [])])" "JObj [(''messages'', JArr [])]"]
  by (simp add: stub_defs getToken_def truthy_token_def ok_def obj_get_def outgoing_def
      request_url_def bearer_headers_def)

section \<open>Find\<close>

text \<open>
  C4. When the dispatcher fails with \<open>e\<close>, \<^verbatim>\<open>find\<close> resolves to \<^verbatim>\<open>{data: []}\<close> if
  \<^verbatim>\<open>ignoreEmptyResult\<close> is true and \<open>e\<close> is a \<^verbatim>\<open>FileMakerError\<close> with code
  \<^verbatim>\<open>"401"\<close>; in every other case (another error, or the flag false or absent) it
  fails with the same \<open>e\<close>.
\<close>

theorem find_ignoreEmptyResult:
  assumes "request P c s (find_request c args) = (Inl e, s')"
  shows "find P c s args =
           (if fa_ignoreEmptyResult args = Some True \<and> (\<exists>m. e = FileMakerError (JStr ''401'') m)
            then (Inr (JObj [(''data'', JArr [])]), s')
            else (Inl e, s'))"
  using assms
  by (cases e) (auto simp: find_def split: option.splits)

theorem find_ignoreEmptyResult_witness:
  "fst (request (stub_platform (server_net login_ok no_records)) credentials_client
      \<lparr>token = Some ''T1'', calls = []\<rparr> (find_request credentials_client (find_people (Some True))))
     = Inl (FileMakerError (JStr ''401'')
         (JStr (failure_message (stub_platform (server_net login_ok no_records)) no_records
            (read_body no_records)))) \<and>
   fst (find (stub_platform (server_net login_ok no_records)) credentials_client
      \<lparr>token = Some ''T1'', calls = []\<rparr> (find_people (Some True)))
     = Inr (JObj [(''data'', JArr [])]) \<and>
   fst (find (stub_platform (server_net login_ok no_records)) credentials_client
      \<lparr>token = Some ''T1'', calls = []\<rparr> (find_people None))
     = Inl (FileMakerError (JStr ''401'')
         (JStr (failure_message (stub_platform (server_net login_ok no_records)) no_records
            (read_body no_records))))"
proof -
  let ?P = "stub_platform (server_net login_ok no_records)"
  let ?s = "\<lparr>token = Some ''T1'', calls = []\<rparr>"
  let ?e = "FileMakerError (JStr ''401'') (JStr (failure_message ?P no_records (read_body no_records)))"
  have r: "\<And>flag. \<exists>s'. request ?P credentials_client ?s (find_request credentials_client (find_people flag))
                 = (Inl ?e, s')"
    by (simp add: stub_defs run_defs find_defs)
  obtain s1 where r1: "request ?P credentials_client ?s
      (find_request credentials_client (find_people (Some True))) = (Inl ?e, s1)"
    using r by blast
  obtain s2 where r2: "request ?P credentials_client ?s
      (find_request credentials_client (find_people None)) = (Inl ?e, s2)"
    using r by blast
  show ?thesis
    using find_ignoreEmptyResult[OF r1] find_ignoreEmptyResult[OF r2] r1
    by (simp add: find_people_def)
qed

text \<open>
  C6. When \<^verbatim>\<open>find\<close> resolves to a result whose \<^verbatim>\<open>data\<close> is an array, \<^verbatim>\<open>findOne\<close>
  returns the result with \<^verbatim>\<open>data\<close> replaced by the one record if the array has exactly
  one; otherwise it fails with a plain \<^verbatim>\<open>Error\<close> whose message starts with the number
  of records, which is not a \<^verbatim>\<open>FileMakerError\<close>.
\<close>

theorem findOne_exactly_one:
  assumes "find P c s args = (Inr res, s')"
    and "get_prop res ''data'' = Inr (JArr xs)"
  shows "(\<forall>x. xs = [x] \<longrightarrow>
            findOne P c s args = (Inr (JObj (obj_set (own_props res) ''data'' x)), s')) \<and>
         (length xs \<noteq> 1 \<longrightarrow>
            findOne P c s args =
              (Inl (Error (show_nat (length xs) @ '' records found; expecting exactly 1'')), s') \<and>
            (\<forall>code msg. fst (findOne P c s args) \<noteq> Inl (FileMakerError code msg)))"
  using assms
  by (auto simp: findOne_def show_int_nat)

theorem findOne_exactly_one_witness:
  "fst (findOne (stub_platform (server_net login_ok (found [JObj [(''recordId'', JStr ''7'')]])))
      credentials_client \<lparr>token = Some ''T1'', calls = []\<rparr> (find_people None))
     = Inr (JObj [(''data'', JObj [(''recordId'', JStr ''7'')])]) \<and>
   fst (findOne (stub_platform (server_net login_ok (found [JNull, JNull])))
      credentials_client \<lparr>token = Some ''T1'', calls = []\<rparr> (find_people None))
     = Inl (Error ''2 records found; expecting exactly 1'') \<and>
   fst (findOne (stub_platform (server_net login_ok (found [])))
      credentials_client \<lparr>token = Some ''T1'', calls = []\<rparr> (find_people None))
     = Inl (Error ''0 records found; expecting exactly 1'')"
proof -
  have n0: "show_nat 0 = ''0''" and n2: "show_nat (Suc (Suc 0)) = ''2''" by code_simp+
  obtain s1 where f1: "find (stub_platform (server_net login_ok (found [JObj [(''recordId'', JStr ''7'')]])))
      credentials_client \<lparr>token = Some ''T1'', calls = []\<rparr> (find_people None)
     = (Inr (JObj [(''data'', JArr [JObj [(''recordId'', JStr ''7'')]])]), s1)"
    using find_found by blast
  obtain s2 where f2: "find (stub_platform (server_net login_ok (found [JNull, JNull])))
      credentials_client \<lparr>token = Some ''T1'', calls = []\<rparr> (find_people None)
     = (Inr (JObj [(''data'', JArr [JNull, JNull])]), s2)"
    using find_found by blast
  obtain s3 where f3: "find (stub_platform (server_net login_ok (found [])))
      credentials_client \<lparr>token = Some ''T1'', calls = []\<rparr> (find_people None)
     = (Inr (JObj [(''data'', JArr [])]), s3)"
    using find_found by blast
  show ?thesis
    using findOne_exactly_one[OF f1, of "[JObj [(''recordId'', JStr ''7'')]]"]
      findOne_exactly_one[OF f2, of "[JNull, JNull]"]
      findOne_exactly_one[OF f3, of "[]"]
    by (simp add: obj_get_def n0 n2)
qed

section \<open>List\<close>

text \<open>
  C5, as the code has it. \<^verbatim>\<open>list\<close> renames \<^verbatim>\<open>limit\<close>, \<^verbatim>\<open>offset\<close> and \<^verbatim>\<open>sort\<close> to
  \<^verbatim>\<open>_limit\<close>, \<^verbatim>\<open>_offset\<close> and \<^verbatim>\<open>_sort\<close> when their value is truthy, with
  \<^verbatim>\<open>sort\<close> put in a one-element array unless it is an array; a key that is absent, or
  present with a falsy value, stays as it is and its underscore key is not touched; every
  other key passes through. The renamed object is the query of the one request that
  \<^verbatim>\<open>list\<close> sends.
\<close>

theorem list_params_truthy_renamed:
  "((truthy (obj_get (la_params args) ''limit'') \<longrightarrow>
      map_of (list_params (la_params args)) ''_limit'' = Some (obj_get (la_params args) ''limit'') \<and>
      map_of (list_params (la_params args)) ''limit'' = None) \<and>
   (\<not> truthy (obj_get (la_params args) ''limit'') \<longrightarrow>
      map_of (list_params (la_params args)) ''limit'' = map_of (la_params args) ''limit'' \<and>
      map_of (list_params (la_params args)) ''_limit'' = map_of (la_params args) ''_limit'') \<and>
   (truthy (obj_get (la_params args) ''offset'') \<longrightarrow>
      map_of (list_params (la_params args)) ''_offset'' = Some (obj_get (la_params args) ''offset'') \<and>
      map_of (list_params (la_params args)) ''offset'' = None) \<and>
   (\<not> truthy (obj_get (la_params args) ''offset'') \<longrightarrow>
      map_of (list_params (la_params args)) ''offset'' = map_of (la_params args) ''offset'' \<and>
      map_of (list_params (la_params args)) ''_offset'' = map_of (la_params args) ''_offset'') \<and>
   (truthy (obj_get (la_params args) ''sort'') \<longrightarrow>
      map_of (list_params (la_params args)) ''_sort'' =
        Some (if is_array (obj_get (la_params args) ''sort'') then obj_get (la_params args) ''sort''
              else JArr [obj_get (la_params args) ''sort'']) \<and>
      map_of (list_params (la_params args)) ''sort'' = None) \<and>
   (\<not> truthy (obj_get (la_params args) ''sort'') \<longrightarrow>
      map_of (list_params (la_params args)) ''sort'' = map_of (la_params args) ''sort'' \<and>
      map_of (list_params (la_params args)) ''_sort'' = map_of (la_params args) ''_sort'') \<and>
   (\<forall>k. k \<notin> {''limit'', ''offset'', ''sort'', ''_limit'', ''_offset'', ''_sort''} \<longrightarrow>
      map_of (list_params (la_params args)) k = map_of (la_params args) k)) \<and>
   (\<forall>u0 tok s1.
      URL_new P (URL_toString P (baseUrl c) @ ''/layouts/'' @ layout_path c (la_layout args)
        @ ''/records'') = Some u0 \<and>
      getToken P c s False = (Inr tok, s1) \<longrightarrow>
      calls (snd (list_op P c s args)) =
        calls s1 @
        [\<lparr>req_url = URL_toString P
             (URL_set_search P u0 (URLSearchParams_toString P (list_params (la_params args)))),
          req_method = ''GET'',
          req_headers = bearer_headers tok,
          req_body = None\<rparr>])"
proof (rule conjI)
  show "(\<forall>u0 tok s1.
      URL_new P (URL_toString P (baseUrl c) @ ''/layouts/'' @ layout_path c (la_layout args)
        @ ''/records'') = Some u0 \<and>
      getToken P c s False = (Inr tok, s1) \<longrightarrow>
      calls (snd (list_op P c s args)) =
        calls s1 @
        [\<lparr>req_url = URL_toString P
             (URL_set_search P u0 (URLSearchParams_toString P (list_params (la_params args)))),
          req_method = ''GET'',
          req_headers = bearer_headers tok,
          req_body = None\<rparr>])"
  proof (intro allI impI, elim conjE)
    fix u0 tok s1
    assume "URL_new P (URL_toString P (baseUrl c) @ ''/layouts/'' @ layout_path c (la_layout args)
        @ ''/records'') = Some u0"
      and "getToken P c s False = (Inr tok, s1)"
    then show "calls (snd (list_op P c s args)) =
        calls s1 @
        [\<lparr>req_url = URL_toString P
             (URL_set_search P u0 (URLSearchParams_toString P (list_params (la_params args)))),
          req_method = ''GET'',
          req_headers = bearer_headers tok,
          req_body = None\<rparr>]"
      by (rule list_op_calls)
  qed
qed (rule list_params_lookup)

theorem list_params_truthy_renamed_witness:
  "map_of (list_params [(''limit'', JNum 10), (''offset'', JNum 0), (''sort'', JStr ''Name'')]) ''_limit''
     = Some (JNum 10) \<and>
   map_of (list_params [(''limit'', JNum 10), (''offset'', JNum 0), (''sort'', JStr ''Name'')]) ''limit''
     = None \<and>
   map_of (list_params [(''limit'', JNum 10), (''offset'', JNum 0), (''sort'', JStr ''Name'')]) ''offset''
     = Some (JNum 0) \<and>
   map_of (list_params [(''limit'', JNum 10), (''offset'', JNum 0), (''sort'', JStr ''Name'')]) ''_offset''
     = None \<and>
   map_of (list_params [(''limit'', JNum 10), (''offset'', JNum 0), (''sort'', JStr ''Name'')]) ''_sort''
     = Some (JArr [JStr ''Name'']) \<and>
   map_of (list_params [(''limit'', JNum 10), (''offset'', JNum 0), (''sort'', JStr ''Name'')]) ''sort''
     = None \<and>
   calls (snd (list_op (stub_platform (server_net login_ok (found []))) credentials_client
      \<lparr>token = Some ''T1'', calls = []\<rparr>
      \<lparr>la_layout = None,
       la_params = [(''limit'', JNum 10), (''offset'', JNum 0), (''sort'', JStr ''Name'')]\<rparr>))
     = [\<lparr>req_url = ''https://fm.example.com/fmi/data/vLatest/databases/db/layouts/people/records?offset=0&_limit=10&_sort=Name&'',
         req_method = ''GET'',
         req_headers = [(''Authorization'', ''Bearer T1''), (''Content-Type'', ''application/json'')],
         req_body = None\<rparr>]"
proof -
  let ?P = "stub_platform (server_net login_ok (found []))"
  let ?args = "\<lparr>la_layout = None,
       la_params = [(''limit'', JNum 10), (''offset'', JNum 0), (''sort'', JStr ''Name'')]\<rparr>"
  let ?u0 = "\<lparr>su_href = ''https://fm.example.com/fmi/data/vLatest/databases/db/layouts/people/records'',
              su_port = [], su_search = []\<rparr>"
  have n: "show_int 10 = ''10''" "show_int 0 = ''0''"
    by (simp_all add: show_int_def show_nat.simps digit_char_def)
  have q: "list_params [(''limit'', JNum 10), (''offset'', JNum 0), (''sort'', JStr ''Name'')]
             = [(''offset'', JNum 0), (''_limit'', JNum 10), (''_sort'', JArr [JStr ''Name''])]"
    by (simp add: list_params_def obj_get_def obj_delete_def)
  have u: "URL_new ?P (URL_toString ?P (baseUrl credentials_client) @ ''/layouts/''
             @ layout_path credentials_client (la_layout ?args) @ ''/records'') = Some ?u0"
    by (simp add: stub_defs layout_path_def)
  have g: "getToken ?P credentials_client \<lparr>token = Some ''T1'', calls = []\<rparr> False
             = (Inr ''T1'', \<lparr>token = Some ''T1'', calls = []\<rparr>)"
    by (simp add: stub_defs getToken_def truthy_token_def)
  have c: "calls (snd (list_op ?P credentials_client \<lparr>token = Some ''T1'', calls = []\<rparr> ?args)) =
        calls \<lparr>token = Some ''T1'', calls = []\<rparr> @
        [\<lparr>req_url = URL_toString ?P
             (URL_set_search ?P ?u0 (URLSearchParams_toString ?P (list_params (la_params ?args)))),
          req_method = ''GET'',
          req_headers = bearer_headers ''T1'',
          req_body = None\<rparr>]"
    by (rule list_params_truthy_renamed[of ?args ?P credentials_client
          "\<lparr>token = Some ''T1'', calls = []\<rparr>", THEN conjunct2, rule_format, OF conjI[OF u g]])
  show ?thesis
    using c by (simp add: q n stub_platform_def bearer_headers_def nullish_def)
qed

text \<open>
  The guard is \<^verbatim>\<open>!!params.offset\<close>, not a test for presence: an \<^verbatim>\<open>offset\<close> of 0 is
  present in the input and goes out under its own name.
\<close>

theorem list_params_falsy_counterexample:
  "map_of [(''offset'', JNum 0)] ''offset'' = Some (JNum 0) \<and>
   list_params [(''offset'', JNum 0)] = [(''offset'', JNum 0)]"
  by (simp add: list_params_def obj_get_def)

section \<open>Session teardown: the guard and the token\<close>

text \<open>
  C7. With an API key, \<^verbatim>\<open>disconnect\<close> throws at once, to the caller and not through a
  promise, and the state is as before: no token read, no request. With credentials it
  never throws: it returns the promise of the inner function.
\<close>

theorem disconnect_apiKey:
  "(\<forall>apiKey ottoPort. auth (options c) = OttoAuth apiKey ottoPort \<longrightarrow>
      disconnect P c s = (Throws (Error ''Cannot disconnect when using Otto API key.''), s)) \<and>
   (\<forall>username password. auth (options c) = UserPasswordAuth username password \<longrightarrow>
      disconnect P c s = (Promise (fst (disconnect_func P c s)), snd (disconnect_func P c s)))"
  by (auto simp: disconnect_def split: prod.splits)

theorem disconnect_apiKey_witness:
  "auth (options apiKey_client) = OttoAuth ''KEY-1'' None \<and>
   disconnect (stub_platform (server_net login_ok (found []))) apiKey_client
      \<lparr>token = Some ''KEY-1'', calls = []\<rparr>
     = (Throws (Error ''Cannot disconnect when using Otto API key.''),
        \<lparr>token = Some ''KEY-1'', calls = []\<rparr>) \<and>
   auth (options credentials_client) = UserPasswordAuth ''admin'' ''secret'' \<and>
   fst (disconnect (stub_platform (server_net login_ok (found []))) credentials_client
      \<lparr>token = Some ''T1'', calls = []\<rparr>)
     = Promise (fst (disconnect_func (stub_platform (server_net login_ok (found [])))
         credentials_client \<lparr>token = Some ''T1'', calls = []\<rparr>))"
  using disconnect_apiKey[of apiKey_client "stub_platform (server_net login_ok (found []))"
      "\<lparr>token = Some ''KEY-1'', calls = []\<rparr>"]
    disconnect_apiKey[of credentials_client "stub_platform (server_net login_ok (found []))"
      "\<lparr>token = Some ''T1'', calls = []\<rparr>"]
  by (simp add: apiKey_client_def credentials_client_def)

text \<open>
  C8. With credentials, a \<^verbatim>\<open>disconnect\<close> that resolves has read the token with
  \<^verbatim>\<open>getToken()\<close>. With none in the cell this was a login, the \<^verbatim>\<open>POST\<close> to
  \<^verbatim>\<open>{baseUrl}/sessions\<close>, logged before the deletion; with one in the cell the deletion
  is the only request. The deletion is a \<^verbatim>\<open>DELETE\<close> of the URL made from
  \<^verbatim>\<open>{baseUrl}/sessions/{token}\<close> with the token as Bearer, and the server answered it
  with success. Afterwards the cell holds the token that \<^verbatim>\<open>getToken()\<close> left there:
  it is not cleared.
\<close>

theorem disconnect_success:
  assumes "auth (options c) = UserPasswordAuth username password"
    and "disconnect P c s = (Promise (Inr v), s')"
    and "login = \<lparr>req_url = URL_toString P (baseUrl c) @ ''/sessions'',
                   req_method = ''POST'',
                   req_headers =
                     [(''Content-Type'', ''application/json''),
                      (''Authorization'', ''Basic '' @ base64 P (username @ '':'' @ password))],
                   req_body = None\<rparr>"
  shows "\<exists>tok url delete res.
           URL_new P (URL_toString P (baseUrl c) @ ''/sessions/'' @ tok) = Some url \<and>
           delete = \<lparr>req_url = URL_toString P url,
                      req_method = ''DELETE'',
                      req_headers = [(''Authorization'', ''Bearer '' @ tok),
                                     (''Content-Type'', ''application/json'')],
                      req_body = None\<rparr> \<and>
           fst (getToken P c s False) = Inr tok \<and>
           token s' = token (snd (getToken P c s False)) \<and>
           token s' = Some tok \<and> tok \<noteq> [] \<and>
           calls s' =
             (case truthy_token (token s) of
                Some t \<Rightarrow> calls s @ [delete]
              | None \<Rightarrow> calls s @ [login, delete]) \<and>
           (\<forall>t. truthy_token (token s) = Some t \<longrightarrow> tok = t \<and> token s' = token s) \<and>
           fetch P (case truthy_token (token s) of
                      Some t \<Rightarrow> calls s
                    | None \<Rightarrow> calls s @ [login]) delete = Inr res \<and>
           ok res \<and> get_prop (read_body res) ''response'' = Inr v"
proof -
  have l: "login_request P c username password = login"
    by (simp add: login_request_def assms(3))
  obtain r1 s1 where g: "getToken P c s False = (r1, s1)" by (cases "getToken P c s False")
  from assms(1,2) g obtain tok where r1: "r1 = Inr tok"
    by (cases r1) (auto simp: disconnect_def disconnect_func_def split: prod.splits)
  from assms(1,2) g r1 obtain url where
    u: "URL_new P (URL_toString P (baseUrl c) @ ''/sessions/'' @ tok) = Some url"
    by (cases "URL_new P (URL_toString P (baseUrl c) @ ''/sessions/'' @ tok)")
       (auto simp: disconnect_def disconnect_func_def split: prod.splits)
  let ?delete = "\<lparr>req_url = URL_toString P url,
                      req_method = ''DELETE'',
                      req_headers = [(''Authorization'', ''Bearer '' @ tok),
                                     (''Content-Type'', ''application/json'')],
                      req_body = None\<rparr>"
  have d: "logout_request P url tok = ?delete"
    by (simp add: logout_request_def bearer_headers_def)
  from assms(1,2) g r1 u have s': "s' = s1\<lparr>calls := calls s1 @ [?delete]\<rparr>"
    by (auto simp: disconnect_def disconnect_func_def do_fetch_def Let_def d
        split: prod.splits sum.splits if_splits)
  from assms(1,2) g r1 u obtain res where
    res: "fetch P (calls s1) ?delete = Inr res" "ok res" "get_prop (read_body res) ''response'' = Inr v"
    by (auto simp: disconnect_def disconnect_func_def do_fetch_def Let_def d
        split: prod.splits sum.splits if_splits)
  show ?thesis
  proof (cases "truthy_token (token s)")
    case None
    from getToken_login[OF assms(1) None g[unfolded r1]]
    have s1: "s1 = \<lparr>token = Some tok, calls = calls s @ [login]\<rparr>" and ne: "tok \<noteq> []"
      by (simp_all add: l)
    show ?thesis
      using u g r1 None s' res ne unfolding s1 by (intro exI[of _ tok] exI[of _ url] exI[of _ ?delete] exI[of _ res]) simp
  next
    case (Some t)
    from getToken_cached[OF assms(1) Some, of P] g r1 have e: "tok = t" "s1 = s" by auto
    from Some have ts: "token s = Some t" "t \<noteq> []"
      by (auto simp: truthy_token_def split: option.splits if_splits)
    show ?thesis
      using u g r1 Some s' res e ts
      by (intro exI[of _ tok] exI[of _ url] exI[of _ ?delete] exI[of _ res]) simp
  qed
qed

theorem disconnect_success_witness:
  "disconnect (stub_platform (server_net login_ok login_ok)) credentials_client
      \<lparr>token = None, calls = []\<rparr>
     = (Promise (Inr (JObj [])),
        \<lparr>token = Some ''T2'',
         calls = [\<lparr>req_url = ''https://fm.example.com/fmi/data/vLatest/databases/db/sessions'',
                   req_method = ''POST'',
                   req_headers = [(''Content-Type'', ''application/json''),
                                  (''Authorization'', ''Basic admin:secret'')],
                   req_body = None\<rparr>,
                  \<lparr>req_url = ''https://fm.example.com/fmi/data/vLatest/databases/db/sessions/T2'',
                   req_method = ''DELETE'',
                   req_headers = [(''Authorization'', ''Bearer T2''),
                                  (''Content-Type'', ''application/json'')],
                   req_body = None\<rparr>]\<rparr>) \<and>
   disconnect (stub_platform (server_net login_ok login_ok)) credentials_client
      \<lparr>token = Some ''T1'', calls = []\<rparr>
     = (Promise (Inr (JObj [])),
        \<lparr>token = Some ''T1'',
         calls = [\<lparr>req_url = ''https://fm.example.com/fmi/data/vLatest/databases/db/sessions/T1'',
                   req_method = ''DELETE'',
                   req_headers = [(''Authorization'', ''Bearer T1''),
                                  (''Content-Type'', ''application/json'')],
                   req_body = None\<rparr>]\<rparr>) \<and>
   token (snd (getToken (stub_platform (server_net login_ok login_ok)) credentials_client
      \<lparr>token = None, calls = []\<rparr> False)) = Some ''T2''"
proof -
  let ?P = "stub_platform (server_net login_ok login_ok)"
  have a: "auth (options credentials_client) = UserPasswordAuth ''admin'' ''secret''"
    by (simp add: credentials_client_def)
  have d0: "disconnect ?P credentials_client \<lparr>token = None, calls = []\<rparr>
     = (Promise (Inr (JObj [])),
        \<lparr>token = Some ''T2'',
         calls = [\<lparr>req_url = ''https://fm.example.com/fmi/data/vLatest/databases/db/sessions'',
                   req_method = ''POST'',
                   req_headers = [(''Content-Type'', ''application/json''),
                                  (''Authorization'', ''Basic admin:secret'')],
                   req_body = None\<rparr>,
                  \<lparr>req_url = ''https://fm.example.com/fmi/data/vLatest/databases/db/sessions/T2'',
                   req_method = ''DELETE'',
                   req_headers = [(''Authorization'', ''Bearer T2''),
                                  (''Content-Type'', ''application/json'')],
                   req_body = None\<rparr>]\<rparr>)"
    by (simp add: stub_defs run_defs disconnect_defs)
  have d1: "disconnect ?P credentials_client \<lparr>token = Some ''T1'', calls = []\<rparr>
     = (Promise (Inr (JObj [])),
        \<lparr>token = Some ''T1'',
         calls = [\<lparr>req_url = ''https://fm.example.com/fmi/data/vLatest/databases/db/sessions/T1'',
                   req_method = ''DELETE'',
                   req_headers = [(''Authorization'', ''Bearer T1''),
                                  (''Content-Type'', ''application/json'')],
                   req_body = None\<rparr>]\<rparr>)"
    by (simp add: stub_defs run_defs disconnect_defs)
  from disconnect_success[OF a d0 refl]
  have e: "token (snd (getToken ?P credentials_client \<lparr>token = None, calls = []\<rparr> False)) = Some ''T2''"
    by (elim exE conjE) simp
  show ?thesis
    by (rule conjI[OF d0 conjI[OF d1 e]])
qed

section \<open>Construction: the port\<close>




end
